theory Spec2Isabelle
  imports Complex_Main
begin

section \<open>Data model (models/memory.go)\<close>

text \<open>
  Values of Go type \<^verbatim>\<open>interface{}\<close> that travel through JSON. A JSON number decodes to
  \<^verbatim>\<open>float64\<close>; every finite \<^verbatim>\<open>float64\<close> is a rational, so numbers and scores are
  reals here and the comparisons agree with Go's (JSON cannot carry NaN or infinities).
\<close>

datatype json =
    JNull
  | JBool bool
  | JNum real
  | JStr string
  | JArr "json list"
  | JObj "(string \<times> json) list"

text \<open>\<^verbatim>\<open>map[string]interface{}\<close>; a nil map and an empty map read alike.\<close>

type_synonym jmap = "string \<rightharpoonup> json"

text \<open>\<^verbatim>\<open>time.Time\<close> at the resolution of \<^verbatim>\<open>Unix()\<close>: seconds since the epoch.\<close>

type_synonym time = int

record Message =
  msg_ID :: string
  msg_Role :: string
  msg_Content :: string
  msg_Timestamp :: time

record SessionData =
  UserID :: string
  SessionID :: string
  Messages :: "Message list"
  Context :: jmap
  LastActivity :: time
  CreatedAt :: time

record MemoryEntry =
  mem_ID :: string
  mem_UserID :: string
  mem_Content :: string
  mem_Embedding :: "real list"
  mem_Metadata :: jmap
  mem_Timestamp :: time
  mem_TTL :: int

record SaveMemoryRequest =
  req_UserID :: string
  req_SessionID :: string
  req_Content :: string
  req_Role :: string

record QueryMemoryRequest =
  q_UserID :: string
  q_Query :: string
  q_Limit :: int
  q_MinScore :: real

record MemoryResult =
  res_ID :: string
  res_Content :: string
  res_Score :: real
  res_Metadata :: jmap
  res_Timestamp :: time

record QueryMemoryResponse =
  Results :: "MemoryResult list"
  Total :: int

section \<open>Wire types of the vector client\<close>

record UpsertRequest =
  up_ID :: string
  up_Vector :: "real list"
  up_Metadata :: jmap

record QueryRequest =
  Vector :: "real list"
  TopK :: int
  IncludeMetadata :: bool
  IncludeVectors :: bool
  Filter :: string

record QueryMatch =
  match_ID :: string
  match_Score :: real
  match_Vector :: "real list"
  match_Metadata :: jmap

section \<open>Errors\<close>

text \<open>
  Go errors are messages; \<^verbatim>\<open>fmt.Errorf("ctx: %w", err)\<close> wraps one in a context.
  \<open>RequestFailed\<close> stands for every way a single HTTP round trip can fail inside
  \<^verbatim>\<open>makeRequest\<close> / \<^verbatim>\<open>executeCommand\<close> / \<^verbatim>\<open>GenerateEmbeddings\<close>: the request
  cannot be sent, the status is not a success, or the body does not decode.
\<close>

datatype error =
    RequestFailed
  | Msg string
  | Wrap string error
  | Panic string

section \<open>The remote services\<close>

text \<open>
  A string held by the key-value store is represented by what
  \<^verbatim>\<open>json.Unmarshal\<close> into a \<^verbatim>\<open>SessionData\<close> makes of it: \<open>Encoded sd\<close> is a string
  that decodes to \<open>sd\<close> (in particular \<^verbatim>\<open>json.Marshal(sd)\<close>), \<open>Undecodable\<close> one on
  which decoding fails. \<open>Members\<close> is a set value.
\<close>

datatype redis_val =
    Encoded SessionData
  | Undecodable
  | Members "string set"

text \<open>\<^verbatim>\<open>RedisCommand\<close>: the commands the client sends.\<close>

datatype RedisCommand =
    SETEX string int redis_val
  | SADD string string
  | EXPIRE string int
  | GET string
  | DEL string

text \<open>The \<^verbatim>\<open>result\<close> field of a \<^verbatim>\<open>RedisResponse\<close>.\<close>

datatype RedisResult =
    RNil
  | RStatus string
  | RInteger int
  | RBulk redis_val

text \<open>One remote call, as it leaves the process.\<close>

datatype call =
    Redis RedisCommand
  | Embedding string
  | Upsert UpsertRequest
  | Query QueryRequest
  | Delete string
  | Info

text \<open>
  The world outside the orchestrator. \<open>kv\<close> maps a key to its value and its time to live
  in seconds (if one is set); \<open>vdb\<close> maps a vector id to its vector and metadata.
  \<open>embedder\<close>, \<open>ranker\<close> and \<open>index_info\<close> are what the embedding provider, the
  vector index's \<^verbatim>\<open>/query\<close> and its \<^verbatim>\<open>/info\<close> answer when they answer.
  \<open>down n c\<close> says that the call \<open>c\<close>, issued as the \<open>n\<close>-th call, fails;
  \<open>trace\<close> lists the calls issued so far. \<open>dimensions\<close> is the field cached in the
  \<^verbatim>\<open>VectorClient\<close>.
\<close>

record world =
  kv :: "string \<rightharpoonup> (redis_val \<times> int option)"
  vdb :: "string \<rightharpoonup> (real list \<times> jmap)"
  dimensions :: int
  embedder :: "string \<Rightarrow> real list"
  ranker :: "(string \<rightharpoonup> (real list \<times> jmap)) \<Rightarrow> QueryRequest \<Rightarrow> QueryMatch list"
  index_info :: jmap
  down :: "nat \<Rightarrow> call \<Rightarrow> bool"
  trace :: "call list"

text \<open>Issuing a call: it is logged, and the environment decides whether it fails.\<close>

definition issue :: "call \<Rightarrow> world \<Rightarrow> bool \<times> world" where
  "issue c w = (down w (length (trace w)) c, w\<lparr>trace := trace w @ [c]\<rparr>)"

text \<open>The calls issued between two worlds.\<close>

definition issued :: "world \<Rightarrow> world \<Rightarrow> call list" where
  "issued w w' = drop (length (trace w)) (trace w')"

text \<open>
  What the key-value store does with a command it receives (the contract of section 6 of
  the specification, with Redis's semantics): the result, or its error reply.
\<close>

definition redis_apply ::
  "RedisCommand \<Rightarrow> (string \<rightharpoonup> (redis_val \<times> int option)) \<Rightarrow>
     (error + RedisResult) \<times> (string \<rightharpoonup> (redis_val \<times> int option))" where
  "redis_apply cmd m =
     (case cmd of
        SETEX k ttl v \<Rightarrow> (Inr (RStatus ''OK''), m(k \<mapsto> (v, Some ttl)))
      | SADD k x \<Rightarrow>
          (case m k of
             None \<Rightarrow> (Inr (RInteger 1), m(k \<mapsto> (Members {x}, None)))
           | Some (Members S, t) \<Rightarrow>
               (Inr (RInteger (if x \<in> S then 0 else 1)), m(k \<mapsto> (Members (insert x S), t)))
           | Some (_, _) \<Rightarrow> (Inl (Msg ''Redis error: WRONGTYPE''), m))
      | EXPIRE k ttl \<Rightarrow>
          (case m k of
             None \<Rightarrow> (Inr (RInteger 0), m)
           | Some (v, _) \<Rightarrow> (Inr (RInteger 1), m(k \<mapsto> (v, Some ttl))))
      | GET k \<Rightarrow>
          (case m k of
             None \<Rightarrow> (Inr RNil, m)
           | Some (Members _, _) \<Rightarrow> (Inl (Msg ''Redis error: WRONGTYPE''), m)
           | Some (v, _) \<Rightarrow> (Inr (RBulk v), m))
      | DEL k \<Rightarrow> (Inr (RInteger (if m k = None then 0 else 1)), m(k := None)))"

section \<open>RedisClient (clients)\<close>

definition executeCommand :: "RedisCommand \<Rightarrow> world \<Rightarrow> (error + RedisResult) \<times> world" where
  "executeCommand cmd w =
     (case issue (Redis cmd) w of
        (True, w1) \<Rightarrow> (Inl RequestFailed, w1)
      | (False, w1) \<Rightarrow>
          (case redis_apply cmd (kv w1) of
             (r, m) \<Rightarrow> (r, w1\<lparr>kv := m\<rparr>)))"

text \<open>
  \<^verbatim>\<open>json.Marshal\<close> of a \<^verbatim>\<open>SessionData\<close> whose context holds JSON values does not fail,
  so that branch of \<^verbatim>\<open>SaveSession\<close> has no counterpart; the three commands follow.
\<close>

definition RedisClient_SaveSession :: "SessionData \<Rightarrow> world \<Rightarrow> error option \<times> world" where
  "RedisClient_SaveSession sessionData w =
     (let key = ''session:'' @ SessionID sessionData in
      case executeCommand (SETEX key 86400 (Encoded sessionData)) w of
        (Inl e, w1) \<Rightarrow> (Some (Wrap ''failed to save session'' e), w1)
      | (Inr _, w1) \<Rightarrow>
          (let userKey = ''user_sessions:'' @ UserID sessionData in
           case executeCommand (SADD userKey (SessionID sessionData)) w1 of
             (Inl e, w2) \<Rightarrow> (Some (Wrap ''failed to save user session mapping'' e), w2)
           | (Inr _, w2) \<Rightarrow>
               (case executeCommand (EXPIRE userKey 86400) w2 of
                  (Inl e, w3) \<Rightarrow> (Some e, w3)
                | (Inr _, w3) \<Rightarrow> (None, w3))))"

definition RedisClient_GetSession :: "string \<Rightarrow> world \<Rightarrow> (error + SessionData) \<times> world" where
  "RedisClient_GetSession sessionID w =
     (let key = ''session:'' @ sessionID in
      case executeCommand (GET key) w of
        (Inl e, w1) \<Rightarrow> (Inl (Wrap ''failed to get session'' e), w1)
      | (Inr RNil, w1) \<Rightarrow> (Inl (Msg ''session not found''), w1)
      | (Inr (RBulk (Encoded sessionData)), w1) \<Rightarrow> (Inr sessionData, w1)
      | (Inr (RBulk _), w1) \<Rightarrow>
          (Inl (Wrap ''failed to unmarshal session data'' (Msg ''invalid JSON'')), w1)
      | (Inr _, w1) \<Rightarrow> (Inl (Msg ''invalid session data format''), w1))"

definition RedisClient_DeleteSession :: "string \<Rightarrow> world \<Rightarrow> error option \<times> world" where
  "RedisClient_DeleteSession sessionID w =
     (let key = ''session:'' @ sessionID in
      case executeCommand (DEL key) w of
        (Inl e, w1) \<Rightarrow> (Some (Wrap ''failed to delete session'' e), w1)
      | (Inr _, w1) \<Rightarrow> (None, w1))"

definition RedisClient_UpdateSessionActivity ::
  "time \<Rightarrow> string \<Rightarrow> world \<Rightarrow> error option \<times> world" where
  "RedisClient_UpdateSessionActivity now sessionID w =
     (case RedisClient_GetSession sessionID w of
        (Inl e, w1) \<Rightarrow> (Some e, w1)
      | (Inr session, w1) \<Rightarrow> RedisClient_SaveSession (session\<lparr>LastActivity := now\<rparr>) w1)"

definition RedisClient_SetSessionContext ::
  "time \<Rightarrow> string \<Rightarrow> jmap \<Rightarrow> world \<Rightarrow> error option \<times> world" where
  "RedisClient_SetSessionContext now sessionID context w =
     (case RedisClient_GetSession sessionID w of
        (Inl e, w1) \<Rightarrow> (Some e, w1)
      | (Inr session, w1) \<Rightarrow>
          RedisClient_SaveSession
            (session\<lparr>Context := Context session ++ context, LastActivity := now\<rparr>) w1)"

section \<open>Numeric conversions\<close>

text \<open>
  Go's conversion \<^verbatim>\<open>int64(f)\<close> of a \<^verbatim>\<open>float64\<close> discards the fraction (truncation
  towards zero). For a value outside the range of \<^verbatim>\<open>int64\<close> the language leaves the
  result to the implementation; amd64 yields the least \<^verbatim>\<open>int64\<close>, which is what is
  written here. \<^verbatim>\<open>int\<close> is 64 bits wide on the platforms the service is built for.
\<close>

definition int64_of_float64 :: "real \<Rightarrow> int" where
  "int64_of_float64 f =
     (let t = (if f < 0 then \<lceil>f\<rceil> else \<lfloor>f\<rfloor>)
      in if - (2 ^ 63) \<le> t \<and> t < 2 ^ 63 then t else - (2 ^ 63))"


text \<open>The zero value of \<^verbatim>\<open>time.Time\<close> (1 January of year 1), in Unix seconds.\<close>

definition zero_time :: time where
  "zero_time = - 62135596800"

section \<open>Configuration (config)\<close>



section \<open>EmbeddingClient (clients/embedding.go)\<close>

definition GenerateEmbedding :: "string \<Rightarrow> world \<Rightarrow> (error + real list) \<times> world" where
  "GenerateEmbedding text w =
     (case issue (Embedding text) w of
        (True, w1) \<Rightarrow> (Inl RequestFailed, w1)
      | (False, w1) \<Rightarrow> (Inr (embedder w1 text), w1))"

section \<open>VectorClient (clients)\<close>

text \<open>What the vector index does with a request it receives.\<close>

definition vector_apply ::
  "call \<Rightarrow> (string \<rightharpoonup> (real list \<times> jmap)) \<Rightarrow> (string \<rightharpoonup> (real list \<times> jmap))" where
  "vector_apply c m =
     (case c of
        Upsert r \<Rightarrow> m(up_ID r \<mapsto> (up_Vector r, up_Metadata r))
      | Delete i \<Rightarrow> m(i := None)
      | _ \<Rightarrow> m)"

text \<open>
  \<^verbatim>\<open>makeRequest\<close>: one round trip to the index. The body of the answer is read off the
  world by the caller (\<open>ranker\<close> for \<^verbatim>\<open>/query\<close>, \<open>index_info\<close> for \<^verbatim>\<open>/info\<close>).
\<close>

definition makeRequest :: "call \<Rightarrow> world \<Rightarrow> error option \<times> world" where
  "makeRequest c w =
     (case issue c w of
        (True, w1) \<Rightarrow> (Some RequestFailed, w1)
      | (False, w1) \<Rightarrow> (None, w1\<lparr>vdb := vector_apply c (vdb w1)\<rparr>))"

text \<open>The request that \<^verbatim>\<open>UpsertMemory\<close> builds; the custom metadata is added last.\<close>

definition upsert_request :: "MemoryEntry \<Rightarrow> UpsertRequest" where
  "upsert_request memory =
     \<lparr>up_ID = mem_ID memory, up_Vector = mem_Embedding memory,
      up_Metadata =
        [''user_id'' \<mapsto> JStr (mem_UserID memory),
         ''content'' \<mapsto> JStr (mem_Content memory),
         ''timestamp'' \<mapsto> JNum (of_int (mem_Timestamp memory)),
         ''ttl'' \<mapsto> JNum (of_int (mem_TTL memory))] ++ mem_Metadata memory\<rparr>"

definition VectorClient_UpsertMemory :: "MemoryEntry \<Rightarrow> world \<Rightarrow> error option \<times> world" where
  "VectorClient_UpsertMemory memory w =
     (case makeRequest (Upsert (upsert_request memory)) w of
        (Some e, w1) \<Rightarrow> (Some (Wrap ''failed to upsert memory'' e), w1)
      | (None, w1) \<Rightarrow> (None, w1))"

text \<open>The body of the loop of \<^verbatim>\<open>QueryMemories\<close> for a match that passes the threshold.\<close>

definition result_of_match :: "QueryMatch \<Rightarrow> MemoryResult" where
  "result_of_match m =
     \<lparr>res_ID = [],
      res_Content = (case match_Metadata m ''content'' of Some (JStr content) \<Rightarrow> content | _ \<Rightarrow> []),
      res_Score = match_Score m,
      res_Metadata = (match_Metadata m)(''id'' \<mapsto> JStr (match_ID m)),
      res_Timestamp =
        (case match_Metadata m ''timestamp'' of
           Some (JNum timestampFloat) \<Rightarrow> int64_of_float64 timestampFloat
         | _ \<Rightarrow> zero_time)\<rparr>"

text \<open>The loop of \<^verbatim>\<open>QueryMemories\<close> over the matches, in the order of the response.\<close>

fun collect_results :: "real \<Rightarrow> QueryMatch list \<Rightarrow> MemoryResult list \<Rightarrow> MemoryResult list" where
  "collect_results minScore [] results = results"
| "collect_results minScore (m # ms) results =
     (if match_Score m < minScore then collect_results minScore ms results
      else collect_results minScore ms (results @ [result_of_match m]))"

definition user_filter :: "string \<Rightarrow> string" where
  "user_filter userID = ''user_id = '' @ [CHR 0x27] @ userID @ [CHR 0x27]"

definition VectorClient_QueryMemories ::
  "string \<Rightarrow> real list \<Rightarrow> int \<Rightarrow> real \<Rightarrow> world \<Rightarrow> (error + MemoryResult list) \<times> world" where
  "VectorClient_QueryMemories userID queryVector limit minScore w =
     (let limit = (if limit \<le> 0 then 10 else limit);
          request = \<lparr>Vector = queryVector, TopK = limit, IncludeMetadata = True,
                     IncludeVectors = False, Filter = user_filter userID\<rparr>
      in case makeRequest (Query request) w of
           (Some e, w1) \<Rightarrow> (Inl (Wrap ''failed to query memories'' e), w1)
         | (None, w1) \<Rightarrow> (Inr (collect_results minScore (ranker w1 (vdb w1) request) []), w1))"

definition VectorClient_DeleteMemory :: "string \<Rightarrow> world \<Rightarrow> error option \<times> world" where
  "VectorClient_DeleteMemory i w =
     (case makeRequest (Delete i) w of
        (Some e, w1) \<Rightarrow> (Some (Wrap ''failed to delete memory'' e), w1)
      | (None, w1) \<Rightarrow> (None, w1))"







section \<open>MemoryService (services/memory.go)\<close>

text \<open>
  \<^verbatim>\<open>time.Now()\<close> and \<^verbatim>\<open>uuid.New().String()\<close> are read from the environment; they are
  the arguments \<open>now\<close> and \<open>messageID\<close>.
\<close>

definition new_message :: "time \<Rightarrow> string \<Rightarrow> SaveMemoryRequest \<Rightarrow> Message" where
  "new_message now messageID req =
     \<lparr>msg_ID = messageID, msg_Role = req_Role req, msg_Content = req_Content req,
      msg_Timestamp = now\<rparr>"

text \<open>
  The first half of \<^verbatim>\<open>SaveMemory\<close>: the session is read (any error of the read starts a
  new record) and the message is appended.
\<close>

definition updated_session ::
  "time \<Rightarrow> string \<Rightarrow> SaveMemoryRequest \<Rightarrow> world \<Rightarrow> SessionData \<times> world" where
  "updated_session now messageID req w =
     (case RedisClient_GetSession (req_SessionID req) w of
        (r, w1) \<Rightarrow>
          (let session =
                 (case r of
                    Inr s \<Rightarrow> s
                  | Inl _ \<Rightarrow>
                      \<lparr>UserID = req_UserID req, SessionID = req_SessionID req, Messages = [],
                       Context = Map.empty, LastActivity = now, CreatedAt = now\<rparr>)
           in (session\<lparr>Messages := Messages session @ [new_message now messageID req],
                        LastActivity := now\<rparr>, w1)))"

definition new_entry :: "time \<Rightarrow> string \<Rightarrow> SaveMemoryRequest \<Rightarrow> real list \<Rightarrow> MemoryEntry" where
  "new_entry now messageID req embedding =
     \<lparr>mem_ID = messageID, mem_UserID = req_UserID req, mem_Content = req_Content req,
      mem_Embedding = embedding,
      mem_Metadata = [''session_id'' \<mapsto> JStr (req_SessionID req), ''role'' \<mapsto> JStr (req_Role req)],
      mem_Timestamp = now, mem_TTL = 30 * 24 * 60 * 60\<rparr>"

definition SaveMemory ::
  "time \<Rightarrow> string \<Rightarrow> SaveMemoryRequest \<Rightarrow> world \<Rightarrow> error option \<times> world" where
  "SaveMemory now messageID req w =
     (case updated_session now messageID req w of
        (session, w1) \<Rightarrow>
          (case RedisClient_SaveSession session w1 of
             (Some e, w2) \<Rightarrow> (Some (Wrap ''failed to save session'' e), w2)
           | (None, w2) \<Rightarrow>
               (case GenerateEmbedding (req_Content req) w2 of
                  (Inl e, w3) \<Rightarrow> (Some (Wrap ''failed to generate embedding'' e), w3)
                | (Inr embedding, w3) \<Rightarrow>
                    (case VectorClient_UpsertMemory (new_entry now messageID req embedding) w3 of
                       (Some e, w4) \<Rightarrow> (Some (Wrap ''failed to save vector memory'' e), w4)
                     | (None, w4) \<Rightarrow> (None, w4)))))"

definition QueryMemory ::
  "QueryMemoryRequest \<Rightarrow> world \<Rightarrow> (error + QueryMemoryResponse) \<times> world" where
  "QueryMemory req w =
     (case GenerateEmbedding (q_Query req) w of
        (Inl e, w1) \<Rightarrow> (Inl (Wrap ''failed to generate query embedding'' e), w1)
      | (Inr queryEmbedding, w1) \<Rightarrow>
          (let limit = (if q_Limit req \<le> 0 then 10 else q_Limit req);
               minScore = (if q_MinScore req \<le> 0 then 0.5 else q_MinScore req)
           in case VectorClient_QueryMemories (q_UserID req) queryEmbedding limit minScore w1 of
                (Inl e, w2) \<Rightarrow> (Inl (Wrap ''failed to query memories'' e), w2)
              | (Inr results, w2) \<Rightarrow>
                  (Inr \<lparr>Results = results, Total = int (length results)\<rparr>, w2)))"

definition MemoryService_GetSession ::
  "time \<Rightarrow> string \<Rightarrow> world \<Rightarrow> (error + SessionData) \<times> world" where
  "MemoryService_GetSession now sessionID w =
     (case RedisClient_GetSession sessionID w of
        (Inl e, w1) \<Rightarrow> (Inl (Wrap ''failed to get session'' e), w1)
      | (Inr session, w1) \<Rightarrow>
          (Inr session, snd (RedisClient_UpdateSessionActivity now sessionID w1)))"

definition MemoryService_DeleteSession :: "string \<Rightarrow> bool \<Rightarrow> world \<Rightarrow> error option \<times> world" where
  "MemoryService_DeleteSession sessionID deleteMemories w =
     (case (if deleteMemories
            then (case RedisClient_GetSession sessionID w of
                    (Inl e, w1) \<Rightarrow> (Some (Wrap ''failed to get session'' e), w1)
                  | (Inr _, w1) \<Rightarrow> (None, w1))
            else (None, w)) of
        (Some e, w1) \<Rightarrow> (Some e, w1)
      | (None, w1) \<Rightarrow>
          (case RedisClient_DeleteSession sessionID w1 of
             (Some e, w2) \<Rightarrow> (Some (Wrap ''failed to delete session from Redis'' e), w2)
           | (None, w2) \<Rightarrow> (None, w2)))"

definition MemoryService_SetSessionContext ::
  "time \<Rightarrow> string \<Rightarrow> jmap \<Rightarrow> world \<Rightarrow> error option \<times> world" where
  "MemoryService_SetSessionContext now sessionID context w =
     RedisClient_SetSessionContext now sessionID context w"


definition MemoryService_DeleteMemory ::
  "string \<Rightarrow> string \<Rightarrow> world \<Rightarrow> error option \<times> world" where
  "MemoryService_DeleteMemory memoryID userID w =
     (let request = \<lparr>q_UserID = userID, q_Query = ''verify memory ownership'',
                     q_Limit = 100, q_MinScore = 0\<rparr>
      in case QueryMemory request w of
           (Inl e, w1) \<Rightarrow> (Some (Wrap ''failed to verify memory ownership'' e), w1)
         | (Inr response, w1) \<Rightarrow>
             (if \<not> list_ex (\<lambda>result. res_Metadata result ''id'' = Some (JStr memoryID))
                     (Results response)
              then (Some (Msg ''memory not found or does not belong to the specified user''), w1)
              else
                case VectorClient_DeleteMemory memoryID w1 of
                  (Some e, w2) \<Rightarrow> (Some (Wrap ''failed to delete memory'' e), w2)
                | (None, w2) \<Rightarrow> (None, w2)))"

section \<open>Records are stored under their own id\<close>

text \<open>
  \<^verbatim>\<open>SaveSession\<close> derives the key from the record's own \<^verbatim>\<open>SessionID\<close> field, so in
  a store that only this service writes every record read back under the key of a session
  carries that session's id. The predicate says so of a store.
\<close>

definition session_keys_ok :: "(string \<rightharpoonup> (redis_val \<times> int option)) \<Rightarrow> bool" where
  "session_keys_ok m =
     (\<forall>sid sd t. m (''session:'' @ sid) = Some (Encoded sd, t) \<longrightarrow> SessionID sd = sid)"

section \<open>Example inputs\<close>

text \<open>
  Concrete worlds and requests on which the theorems below are exercised. In \<open>quiet\<close>
  both stores are empty and no call fails; \<open>stocked\<close> holds two memories of one owner,
  the first of them long past its time to live at time 1000. \<open>demo_ranker\<close> answers a
  query with the entries the index holds under the ids \<open>m1\<close> and \<open>m2\<close>, scored 0.9
  and 0.3.
\<close>

definition demo_metadata :: "real \<Rightarrow> real \<Rightarrow> jmap" where
  "demo_metadata ts ttl =
     [''user_id'' \<mapsto> JStr ''alice'', ''content'' \<mapsto> JStr ''I have a cat'',
      ''timestamp'' \<mapsto> JNum ts, ''ttl'' \<mapsto> JNum ttl]"

definition demo_ranker ::
  "(string \<rightharpoonup> (real list \<times> jmap)) \<Rightarrow> QueryRequest \<Rightarrow> QueryMatch list" where
  "demo_ranker store rq =
     concat (map (\<lambda>(i, sc). case store i of
                     None \<Rightarrow> []
                   | Some (v, md) \<Rightarrow>
                       [\<lparr>match_ID = i, match_Score = sc, match_Vector = [], match_Metadata = md\<rparr>])
                 [(''m1'', 0.9), (''m2'', 0.3)])"

definition quiet :: world where
  "quiet = \<lparr>kv = Map.empty, vdb = Map.empty, dimensions = 0, embedder = (\<lambda>_. [1, 0]),
            ranker = demo_ranker, index_info = Map.empty, down = (\<lambda>_ _. False), trace = []\<rparr>"

definition stocked :: world where
  "stocked = \<lparr>kv = Map.empty,
      vdb = [''m1'' \<mapsto> ([1, 0], demo_metadata 100 50),
             ''m2'' \<mapsto> ([0, 1], demo_metadata 900 2592000)],
      dimensions = 0, embedder = (\<lambda>_. [1, 0]), ranker = demo_ranker,
      index_info = [''result'' \<mapsto> JObj [(''dimension'', JNum 2)]],
      down = (\<lambda>_ _. False), trace = []\<rparr>"

definition cat_req :: SaveMemoryRequest where
  "cat_req = \<lparr>req_UserID = ''alice'', req_SessionID = ''s1'', req_Content = ''I have a cat'',
              req_Role = ''user''\<rparr>"

definition pet_query :: "int \<Rightarrow> real \<Rightarrow> QueryMemoryRequest" where
  "pet_query l s = \<lparr>q_UserID = ''alice'', q_Query = ''pet'', q_Limit = l, q_MinScore = s\<rparr>"

text \<open>An environment in which the embedding provider is unreachable.\<close>

definition embed_down :: "nat \<Rightarrow> call \<Rightarrow> bool" where
  "embed_down n c = (case c of Embedding _ \<Rightarrow> True | _ \<Rightarrow> False)"

text \<open>An environment in which the session store refuses to write a value.\<close>

definition setex_down :: "nat \<Rightarrow> call \<Rightarrow> bool" where
  "setex_down n c = (case c of Redis (SETEX _ _ _) \<Rightarrow> True | _ \<Rightarrow> False)"



text \<open>A world with a stored session that carries two context keys.\<close>

definition chat_record :: SessionData where
  "chat_record = \<lparr>UserID = ''alice'', SessionID = ''s1'', Messages = [],
                  Context = [''a'' \<mapsto> JNum 1, ''b'' \<mapsto> JNum 2],
                  LastActivity = 0, CreatedAt = 0\<rparr>"

definition chatting :: world where
  "chatting = stocked\<lparr>kv := [''session:s1'' \<mapsto> (Encoded chat_record, Some 100)]\<rparr>"

definition ctx_update :: jmap where
  "ctx_update = [''b'' \<mapsto> JNum 3, ''c'' \<mapsto> JNum 4]"

section \<open>The adapters, call by call\<close>

text \<open>
  Each adapter function makes a fixed, short sequence of calls. The equations below say
  what one call returns and what it leaves behind, in terms of the world before it.
\<close>

lemma executeCommand_eq:
  "executeCommand cmd w =
     (if down w (length (trace w)) (Redis cmd)
      then (Inl RequestFailed, w\<lparr>trace := trace w @ [Redis cmd]\<rparr>)
      else (fst (redis_apply cmd (kv w)),
            w\<lparr>trace := trace w @ [Redis cmd], kv := snd (redis_apply cmd (kv w))\<rparr>))"
  by (simp add: executeCommand_def issue_def split: prod.splits)

lemma makeRequest_eq:
  "makeRequest c w =
     (if down w (length (trace w)) c
      then (Some RequestFailed, w\<lparr>trace := trace w @ [c]\<rparr>)
      else (None, w\<lparr>trace := trace w @ [c], vdb := vector_apply c (vdb w)\<rparr>))"
  by (simp add: makeRequest_def issue_def)

lemma GenerateEmbedding_eq:
  "GenerateEmbedding text w =
     (if down w (length (trace w)) (Embedding text) then Inl RequestFailed
      else Inr (embedder w text),
      w\<lparr>trace := trace w @ [Embedding text]\<rparr>)"
  by (simp add: GenerateEmbedding_def issue_def)

lemma UpsertMemory_eq:
  "VectorClient_UpsertMemory memory w =
     (if down w (length (trace w)) (Upsert (upsert_request memory))
      then (Some (Wrap ''failed to upsert memory'' RequestFailed),
            w\<lparr>trace := trace w @ [Upsert (upsert_request memory)]\<rparr>)
      else (None, w\<lparr>trace := trace w @ [Upsert (upsert_request memory)],
                     vdb := (vdb w)(mem_ID memory \<mapsto>
                        (mem_Embedding memory, up_Metadata (upsert_request memory)))\<rparr>))"
  by (simp add: VectorClient_UpsertMemory_def makeRequest_eq vector_apply_def upsert_request_def)

lemma DeleteMemory_eq:
  "VectorClient_DeleteMemory i w =
     (if down w (length (trace w)) (Delete i)
      then (Some (Wrap ''failed to delete memory'' RequestFailed),
            w\<lparr>trace := trace w @ [Delete i]\<rparr>)
      else (None, w\<lparr>trace := trace w @ [Delete i], vdb := (vdb w)(i := None)\<rparr>))"
  by (simp add: VectorClient_DeleteMemory_def makeRequest_eq vector_apply_def)

lemma GetSession_eq:
  "RedisClient_GetSession sid w =
     (if down w (length (trace w)) (Redis (GET (''session:'' @ sid)))
      then Inl (Wrap ''failed to get session'' RequestFailed)
      else (case kv w (''session:'' @ sid) of
              None \<Rightarrow> Inl (Msg ''session not found'')
            | Some (Encoded sd, t) \<Rightarrow> Inr sd
            | Some (Undecodable, t) \<Rightarrow>
                Inl (Wrap ''failed to unmarshal session data'' (Msg ''invalid JSON''))
            | Some (Members S, t) \<Rightarrow>
                Inl (Wrap ''failed to get session'' (Msg ''Redis error: WRONGTYPE''))),
      w\<lparr>trace := trace w @ [Redis (GET (''session:'' @ sid))]\<rparr>)"
  by (auto simp: RedisClient_GetSession_def executeCommand_eq redis_apply_def Let_def
      split: option.splits redis_val.splits prod.splits)

lemma DeleteSession_eq:
  "RedisClient_DeleteSession sid w =
     (if down w (length (trace w)) (Redis (DEL (''session:'' @ sid)))
      then (Some (Wrap ''failed to delete session'' RequestFailed),
            w\<lparr>trace := trace w @ [Redis (DEL (''session:'' @ sid))]\<rparr>)
      else (None, w\<lparr>trace := trace w @ [Redis (DEL (''session:'' @ sid))],
                     kv := (kv w)(''session:'' @ sid := None)\<rparr>))"
  by (simp add: RedisClient_DeleteSession_def executeCommand_eq redis_apply_def Let_def)

text \<open>The loop of \<^verbatim>\<open>QueryMemories\<close> keeps the matches at or above the threshold, in order.\<close>

lemma collect_results_eq:
  "collect_results s ms acc = acc @ map result_of_match (filter (\<lambda>m. s \<le> match_Score m) ms)"
  by (induction ms arbitrary: acc) (auto simp: not_less)

lemma QueryMemories_eq:
  "VectorClient_QueryMemories userID queryVector limit minScore w =
     (let request = \<lparr>Vector = queryVector, TopK = (if limit \<le> 0 then 10 else limit),
                      IncludeMetadata = True, IncludeVectors = False,
                      Filter = user_filter userID\<rparr>
      in if down w (length (trace w)) (Query request)
         then (Inl (Wrap ''failed to query memories'' RequestFailed),
               w\<lparr>trace := trace w @ [Query request]\<rparr>)
         else (Inr (map result_of_match
                      (filter (\<lambda>m. minScore \<le> match_Score m) (ranker w (vdb w) request))),
               w\<lparr>trace := trace w @ [Query request]\<rparr>))"
  by (simp add: VectorClient_QueryMemories_def makeRequest_eq vector_apply_def Let_def
      collect_results_eq)

lemma result_id:
  "res_Metadata (result_of_match m) ''id'' = Some (JStr (match_ID m))"
  by (simp add: result_of_match_def)

lemma result_score: "res_Score (result_of_match m) = match_Score m"
  by (simp add: result_of_match_def)

lemma distinct_tagged:
  "distinct (map g xs) \<Longrightarrow> distinct (map (\<lambda>x. Some (JStr (g x))) xs)"
  by (induction xs) auto

section \<open>Saving a session\<close>

text \<open>
  \<^verbatim>\<open>SaveSession\<close> talks to the key-value store only. Once its first command has been
  served the record sits under its key with a time to live of 86400 seconds; the two
  commands that follow touch the owner's set of session ids, a different key.
\<close>

lemma SaveSession_frame:
  assumes "RedisClient_SaveSession sd w = (r, w')"
  shows "vdb w' = vdb w \<and> down w' = down w \<and> embedder w' = embedder w \<and> ranker w' = ranker w
     \<and> index_info w' = index_info w \<and> dimensions w' = dimensions w
     \<and> (\<exists>cs. trace w' = trace w @ cs \<and> (\<forall>c\<in>set cs. \<exists>cmd. c = Redis cmd))"
  using assms
  by (auto simp: RedisClient_SaveSession_def executeCommand_eq Let_def
      split: if_splits sum.splits prod.splits)

lemma SaveSession_kv:
  assumes "RedisClient_SaveSession sd w = (r, w')"
    and "\<nexists>e. r = Some (Wrap ''failed to save session'' e)"
  shows "kv w' (''session:'' @ SessionID sd) = Some (Encoded sd, Some 86400)"
  using assms
  by (auto simp: RedisClient_SaveSession_def executeCommand_eq redis_apply_def Let_def
      split: if_splits sum.splits prod.splits option.splits redis_val.splits)

lemma SaveSession_ok_kv:
  assumes "RedisClient_SaveSession sd w = (None, w')"
  shows "kv w' (''session:'' @ SessionID sd) = Some (Encoded sd, Some 86400)"
  using SaveSession_kv [OF assms] by simp

lemma SaveSession_kv_other:
  assumes "RedisClient_SaveSession sd w = (r, w')"
    and "k \<noteq> ''session:'' @ SessionID sd" "k \<noteq> ''user_sessions:'' @ UserID sd"
  shows "kv w' k = kv w k"
  using assms
  by (auto simp: RedisClient_SaveSession_def executeCommand_eq redis_apply_def Let_def
      split: if_splits sum.splits prod.splits option.splits redis_val.splits)

lemma GetSession_frame:
  assumes "RedisClient_GetSession sid w = (r, w')"
  shows "w' = w\<lparr>trace := trace w @ [Redis (GET (''session:'' @ sid))]\<rparr>"
  using assms by (simp add: GetSession_eq)


lemma updated_session_eq:
  "updated_session now messageID req w = (session, w1) \<Longrightarrow>
     w1 = w\<lparr>trace := trace w @ [Redis (GET (''session:'' @ req_SessionID req))]\<rparr>"
  by (auto simp: updated_session_def Let_def split: prod.splits dest: GetSession_frame)

lemma updated_session_shape:
  assumes "updated_session now messageID req w = (session, w1)"
  shows "session =
      (case fst (RedisClient_GetSession (req_SessionID req) w) of
         Inr sd \<Rightarrow> sd\<lparr>Messages := Messages sd @ [new_message now messageID req],
                       LastActivity := now\<rparr>
       | Inl _ \<Rightarrow> \<lparr>UserID = req_UserID req, SessionID = req_SessionID req,
                   Messages = [new_message now messageID req], Context = Map.empty,
                   LastActivity = now, CreatedAt = now\<rparr>)"
  using assms by (auto simp: updated_session_def Let_def split: prod.splits sum.splits)

text \<open>
  The three ways \<^verbatim>\<open>SaveMemory\<close> can end, read off the outcome of the session write and
  of the two calls after it.
\<close>

lemma SaveMemory_outcome:
  assumes "updated_session now messageID req w = (session, w1)"
    and "RedisClient_SaveSession session w1 = (r2, w2)"
    and "SaveMemory now messageID req w = (r, w')"
  shows "(\<forall>e. r2 = Some e \<longrightarrow>
            r = Some (Wrap ''failed to save session'' e) \<and> vdb w' = vdb w
            \<and> (\<forall>c\<in>set (issued w w'). \<exists>cmd. c = Redis cmd))
       \<and> (r2 = None \<longrightarrow>
            kv w' (''session:'' @ SessionID session) = Some (Encoded session, Some 86400)
            \<and> Messages session \<noteq> [] \<and> last (Messages session) = new_message now messageID req
            \<and> (down w (length (trace w2)) (Embedding (req_Content req)) \<longrightarrow>
                 r = Some (Wrap ''failed to generate embedding'' RequestFailed) \<and> vdb w' = vdb w)
            \<and> (\<not> down w (length (trace w2)) (Embedding (req_Content req))
               \<and> down w (Suc (length (trace w2)))
                    (Upsert (upsert_request
                       (new_entry now messageID req (embedder w (req_Content req))))) \<longrightarrow>
                 r = Some (Wrap ''failed to save vector memory''
                             (Wrap ''failed to upsert memory'' RequestFailed))
                 \<and> vdb w' = vdb w))"
proof -
  have w1: "w1 = w\<lparr>trace := trace w @ [Redis (GET (''session:'' @ req_SessionID req))]\<rparr>"
    using assms(1) by (rule updated_session_eq)
  have fr: "vdb w2 = vdb w1 \<and> down w2 = down w1 \<and> embedder w2 = embedder w1
     \<and> (\<exists>cs. trace w2 = trace w1 @ cs \<and> (\<forall>c\<in>set cs. \<exists>cmd. c = Redis cmd))"
    using SaveSession_frame [OF assms(2)] by simp
  have msgs: "Messages session \<noteq> [] \<and> last (Messages session) = new_message now messageID req"
    using assms(1) by (auto simp: updated_session_def Let_def split: prod.splits)
  show ?thesis
  proof (cases r2)
    case (Some e)
    then have "r = Some (Wrap ''failed to save session'' e)" "w' = w2"
      using assms by (auto simp: SaveMemory_def)
    with Some fr w1 show ?thesis by (auto simp: issued_def)
  next
    case None
    have kv2: "kv w2 (''session:'' @ SessionID session) = Some (Encoded session, Some 86400)"
      using SaveSession_kv [OF assms(2)] None by simp
    from None assms fr w1 kv2 msgs show ?thesis
      by (auto simp: SaveMemory_def GenerateEmbedding_eq UpsertMemory_eq split: if_splits)
  qed
qed

lemma SaveMemory_session_kept:
  assumes u: "updated_session now messageID req w = (session, w1)"
    and run: "SaveMemory now messageID req w = (r, w')"
    and ok: "\<nexists>e. r = Some (Wrap ''failed to save session'' e)"
  shows "kv w' (''session:'' @ SessionID session) = Some (Encoded session, Some 86400)"
proof -
  obtain r2 w2 where s: "RedisClient_SaveSession session w1 = (r2, w2)"
    by fastforce
  have "r2 = None"
    using run ok u s by (cases r2) (auto simp: SaveMemory_def)
  with SaveMemory_outcome [OF u s run] show ?thesis by simp
qed

section \<open>The session store stays well keyed\<close>

text \<open>
  Every operation of the service that writes to the session store keeps records under
  their own ids; a record that can be read under a session's key then carries that id.
\<close>

lemma session_keys_okD:
  "session_keys_ok m \<Longrightarrow> m (''session:'' @ sid) = Some (Encoded sd, t) \<Longrightarrow> SessionID sd = sid"
  unfolding session_keys_ok_def by blast

lemma SaveSession_kv_cases:
  assumes "RedisClient_SaveSession sd w = (r, w')"
  shows "kv w' (''session:'' @ SessionID sd) = kv w (''session:'' @ SessionID sd)
       \<or> kv w' (''session:'' @ SessionID sd) = Some (Encoded sd, Some 86400)"
  using assms
  by (auto simp: RedisClient_SaveSession_def executeCommand_eq redis_apply_def Let_def
      split: if_splits sum.splits prod.splits option.splits redis_val.splits)

lemma SaveSession_keeps_keys:
  assumes inv: "session_keys_ok (kv w)"
    and run: "RedisClient_SaveSession sd w = (r, w')"
  shows "session_keys_ok (kv w')"
  unfolding session_keys_ok_def
proof (intro allI impI)
  fix sid sd' t
  assume st: "kv w' (''session:'' @ sid) = Some (Encoded sd', t)"
  show "SessionID sd' = sid"
  proof (cases "sid = SessionID sd")
    case True
    from SaveSession_kv_cases [OF run]
    consider "kv w' (''session:'' @ sid) = kv w (''session:'' @ sid)"
      | "kv w' (''session:'' @ sid) = Some (Encoded sd, Some 86400)"
      using True by auto
    then show ?thesis
    proof cases
      case 1
      with st have "kv w (''session:'' @ sid) = Some (Encoded sd', t)" by simp
      with inv show ?thesis by (rule session_keys_okD)
    next
      case 2
      with st True show ?thesis by simp
    qed
  next
    case False
    then have "kv w' (''session:'' @ sid) = kv w (''session:'' @ sid)"
      using SaveSession_kv_other [OF run, of "''session:'' @ sid"] by simp
    with st have "kv w (''session:'' @ sid) = Some (Encoded sd', t)" by simp
    with inv show ?thesis by (rule session_keys_okD)
  qed
qed

lemma SaveMemory_keeps_keys:
  assumes inv: "session_keys_ok (kv w)"
    and run: "SaveMemory now messageID req w = (r, w')"
  shows "session_keys_ok (kv w')"
proof -
  obtain session w1 where u: "updated_session now messageID req w = (session, w1)"
    by fastforce
  obtain r2 w2 where s: "RedisClient_SaveSession session w1 = (r2, w2)"
    by fastforce
  have "kv w1 = kv w"
    using updated_session_eq [OF u] by simp
  with inv SaveSession_keeps_keys [OF _ s] have k2: "session_keys_ok (kv w2)"
    by simp
  have "kv w' = kv w2"
    using run u s
    by (auto simp: SaveMemory_def GenerateEmbedding_eq UpsertMemory_eq
        split: option.splits if_splits)
  with k2 show ?thesis by simp
qed

lemma SetSessionContext_keeps_keys:
  assumes inv: "session_keys_ok (kv w)"
    and run: "MemoryService_SetSessionContext now s u w = (r, w')"
  shows "session_keys_ok (kv w')"
proof (cases "fst (RedisClient_GetSession s w)")
  case (Inl e)
  then have "kv w' = kv w"
    using run
    by (auto simp: MemoryService_SetSessionContext_def RedisClient_SetSessionContext_def
        GetSession_eq split: if_splits option.splits prod.splits redis_val.splits)
  with inv show ?thesis by simp
next
  case (Inr sd)
  then have "RedisClient_SaveSession (sd\<lparr>Context := Context sd ++ u, LastActivity := now\<rparr>)
      (w\<lparr>trace := trace w @ [Redis (GET (''session:'' @ s))]\<rparr>) = (r, w')"
    using run
    by (auto simp: MemoryService_SetSessionContext_def RedisClient_SetSessionContext_def
        GetSession_eq split: if_splits option.splits prod.splits redis_val.splits)
  from SaveSession_keeps_keys [OF _ this] inv show ?thesis by simp
qed

lemma DeleteSession_keeps_keys:
  assumes inv: "session_keys_ok (kv w)"
    and run: "MemoryService_DeleteSession s flag w = (r, w')"
  shows "session_keys_ok (kv w')"
proof -
  have "kv w' = kv w \<or> kv w' = (kv w)(''session:'' @ s := None)"
    using run
    by (auto simp: MemoryService_DeleteSession_def GetSession_eq DeleteSession_eq
        split: if_splits option.splits redis_val.splits prod.splits)
  then show ?thesis
    unfolding session_keys_ok_def
    using inv by (auto dest: session_keys_okD split: if_splits)
qed

lemma readable_under_own_id:
  assumes "session_keys_ok (kv w)"
    and "fst (RedisClient_GetSession sid w) = Inr sd"
  shows "SessionID sd = sid"
proof -
  obtain t where "kv w (''session:'' @ sid) = Some (Encoded sd, t)"
    using assms(2)
    by (auto simp: GetSession_eq split: if_splits option.splits redis_val.splits)
  with assms(1) show ?thesis by (rule session_keys_okD)
qed

lemma saved_entry_stamped:
  "up_Metadata (upsert_request (new_entry now messageID req v)) ''timestamp''
      = Some (JNum (of_int now))
   \<and> up_Metadata (upsert_request (new_entry now messageID req v)) ''ttl''
      = Some (JNum (of_int 2592000))"
  by (simp add: upsert_request_def new_entry_def map_add_def)

text \<open>Evaluation of the model on the example inputs.\<close>

lemmas save_eval = SaveMemory_def updated_session_def GetSession_eq
  RedisClient_SaveSession_def executeCommand_eq redis_apply_def GenerateEmbedding_eq
  UpsertMemory_eq new_message_def new_entry_def upsert_request_def quiet_def cat_req_def
  embed_down_def setex_down_def demo_ranker_def issued_def Let_def

lemmas query_eval = QueryMemory_def GenerateEmbedding_eq QueryMemories_eq stocked_def
  demo_ranker_def demo_metadata_def pet_query_def result_of_match_def issued_def Let_def


lemmas delete_eval = MemoryService_DeleteMemory_def query_eval DeleteMemory_eq

lemmas session_eval = MemoryService_SetSessionContext_def RedisClient_SetSessionContext_def
  MemoryService_GetSession_def RedisClient_UpdateSessionActivity_def
  MemoryService_DeleteSession_def GetSession_eq DeleteSession_eq RedisClient_SaveSession_def
  executeCommand_eq redis_apply_def chatting_def chat_record_def ctx_update_def stocked_def
  quiet_def issued_def Let_def

section \<open>Save: failure semantics\<close>

text \<open>
  Claim C1. Let \<open>session\<close> be the record \<^verbatim>\<open>SaveMemory\<close> is about to persist and
  \<open>r2\<close> the outcome of persisting it. If persisting fails, the operation fails with
  that error wrapped, every call it has issued went to the session store (no embedding
  was requested, nothing was sent to the vector index) and the vector index is as before.
  If persisting succeeds and then the embedding call or the upsert fails, the operation
  returns an error, the vector index is as before, and the session store still holds the
  record whose last message is the new one, with its 86400 seconds: the write is not
  undone.
\<close>

theorem save_failure_semantics:
  assumes "updated_session now messageID req w = (session, w1)"
    and "RedisClient_SaveSession session w1 = (r2, w2)"
    and "SaveMemory now messageID req w = (r, w')"
  shows "(\<forall>e. r2 = Some e \<longrightarrow>
            r = Some (Wrap ''failed to save session'' e) \<and> vdb w' = vdb w
            \<and> (\<forall>c\<in>set (issued w w'). \<exists>cmd. c = Redis cmd))
       \<and> (r2 = None \<longrightarrow>
            kv w' (''session:'' @ SessionID session) = Some (Encoded session, Some 86400)
            \<and> Messages session \<noteq> [] \<and> last (Messages session) = new_message now messageID req
            \<and> (down w (length (trace w2)) (Embedding (req_Content req)) \<longrightarrow>
                 r = Some (Wrap ''failed to generate embedding'' RequestFailed) \<and> vdb w' = vdb w)
            \<and> (\<not> down w (length (trace w2)) (Embedding (req_Content req))
               \<and> down w (Suc (length (trace w2)))
                    (Upsert (upsert_request
                       (new_entry now messageID req (embedder w (req_Content req))))) \<longrightarrow>
                 r = Some (Wrap ''failed to save vector memory''
                             (Wrap ''failed to upsert memory'' RequestFailed))
                 \<and> vdb w' = vdb w))"
  using assms by (rule SaveMemory_outcome)

text \<open>
  With the embedding provider unreachable, saving into the empty world reports the
  embedding failure and leaves the one-message session behind. With the session store
  refusing the write, the save stops after its two commands to the session store.
\<close>

theorem save_failure_semantics_witness:
  "fst (SaveMemory 100 ''m1'' cat_req (quiet\<lparr>down := embed_down\<rparr>))
     = Some (Wrap ''failed to generate embedding'' RequestFailed)
   \<and> kv (snd (SaveMemory 100 ''m1'' cat_req (quiet\<lparr>down := embed_down\<rparr>))) ''session:s1''
     = Some (Encoded \<lparr>UserID = ''alice'', SessionID = ''s1'',
          Messages = [\<lparr>msg_ID = ''m1'', msg_Role = ''user'', msg_Content = ''I have a cat'',
                       msg_Timestamp = 100\<rparr>],
          Context = Map.empty, LastActivity = 100, CreatedAt = 100\<rparr>, Some 86400)
   \<and> vdb (snd (SaveMemory 100 ''m1'' cat_req (quiet\<lparr>down := embed_down\<rparr>))) = Map.empty
   \<and> fst (SaveMemory 100 ''m1'' cat_req (quiet\<lparr>down := setex_down\<rparr>))
     = Some (Wrap ''failed to save session'' (Wrap ''failed to save session'' RequestFailed))
   \<and> vdb (snd (SaveMemory 100 ''m1'' cat_req (quiet\<lparr>down := setex_down\<rparr>))) = Map.empty
   \<and> list_all (\<lambda>c. \<exists>cmd. c = Redis cmd)
        (issued (quiet\<lparr>down := setex_down\<rparr>)
           (snd (SaveMemory 100 ''m1'' cat_req (quiet\<lparr>down := setex_down\<rparr>))))"
proof -
  let ?w = "quiet\<lparr>down := embed_down\<rparr>"
  let ?u = "updated_session 100 ''m1'' cat_req ?w"
  let ?s = "RedisClient_SaveSession (fst ?u) (snd ?u)"
  let ?r = "SaveMemory 100 ''m1'' cat_req ?w"
  have a: "?u = (fst ?u, snd ?u)" and b: "?s = (fst ?s, snd ?s)" and c: "?r = (fst ?r, snd ?r)"
    by simp_all
  have s: "fst ?s = None" "SessionID (fst ?u) = ''s1''"
    by (simp_all add: save_eval)
  have d: "down ?w (length (trace (snd ?s))) (Embedding (req_Content cat_req))"
    by (simp add: save_eval)
  have e: "fst ?u = \<lparr>UserID = ''alice'', SessionID = ''s1'',
          Messages = [\<lparr>msg_ID = ''m1'', msg_Role = ''user'', msg_Content = ''I have a cat'',
                       msg_Timestamp = 100\<rparr>],
          Context = Map.empty, LastActivity = 100, CreatedAt = 100\<rparr>"
    by (simp add: save_eval)
  have v: "vdb ?w = Map.empty"
    by (simp add: quiet_def)
  from save_failure_semantics [OF a b c] s d e v
  have first: "fst ?r = Some (Wrap ''failed to generate embedding'' RequestFailed)
      \<and> kv (snd ?r) ''session:s1'' = Some (Encoded (fst ?u), Some 86400)
      \<and> vdb (snd ?r) = Map.empty"
    by simp
  let ?w' = "quiet\<lparr>down := setex_down\<rparr>"
  let ?u' = "updated_session 100 ''m1'' cat_req ?w'"
  let ?s' = "RedisClient_SaveSession (fst ?u') (snd ?u')"
  let ?r' = "SaveMemory 100 ''m1'' cat_req ?w'"
  have a': "?u' = (fst ?u', snd ?u')" and b': "?s' = (fst ?s', snd ?s')"
    and c': "?r' = (fst ?r', snd ?r')"
    by simp_all
  have s': "fst ?s' = Some (Wrap ''failed to save session'' RequestFailed)"
    by (simp add: save_eval)
  have v': "vdb ?w' = Map.empty"
    by (simp add: quiet_def)
  from save_failure_semantics [OF a' b' c'] s' v'
  have second: "fst ?r' = Some (Wrap ''failed to save session''
                                  (Wrap ''failed to save session'' RequestFailed))
      \<and> vdb (snd ?r') = Map.empty
      \<and> list_all (\<lambda>c. \<exists>cmd. c = Redis cmd) (issued ?w' (snd ?r'))"
    by (simp add: list_all_iff)
  from first second e show ?thesis by simp
qed

section \<open>Query: limit, threshold and order\<close>

text \<open>
  Claim C2. A query that succeeds has made two calls: the embedding of the query text, and
  one query of the vector index whose \<open>TopK\<close> is the requested limit, or 10 when that
  is not positive, filtered by the owner. With the effective minimum being the requested
  minimum score, or 0.5 when that is not positive, the results are the index's matches
  scoring at least the minimum, each turned into a result, in the order of the index's
  answer. So every returned score is at least the minimum, and results are distinct by id
  whenever the index's matches are.
\<close>

theorem query_threshold_and_order:
  fixes req :: QueryMemoryRequest and w :: world
  defines "limit \<equiv> (if q_Limit req \<le> 0 then 10 else q_Limit req)"
    and "minScore \<equiv> (if q_MinScore req \<le> 0 then 0.5 else q_MinScore req)"
  defines "request \<equiv> \<lparr>Vector = embedder w (q_Query req), TopK = limit, IncludeMetadata = True,
                        IncludeVectors = False, Filter = user_filter (q_UserID req)\<rparr>"
  assumes ok: "QueryMemory req w = (Inr resp, w')"
  shows "issued w w' = [Embedding (q_Query req), Query request]
       \<and> Results resp = map result_of_match
            (filter (\<lambda>m. minScore \<le> match_Score m) (ranker w (vdb w) request))
       \<and> map res_Score (Results resp)
            = filter (\<lambda>s. minScore \<le> s) (map match_Score (ranker w (vdb w) request))
       \<and> (\<forall>r\<in>set (Results resp). minScore \<le> res_Score r)
       \<and> (distinct (map match_ID (ranker w (vdb w) request)) \<longrightarrow>
            distinct (map (\<lambda>r. res_Metadata r ''id'') (Results resp)))"
proof -
  let ?ms = "ranker w (vdb w) request"
  have res: "Results resp = map result_of_match (filter (\<lambda>m. minScore \<le> match_Score m) ?ms)"
    and tr: "issued w w' = [Embedding (q_Query req), Query request]"
    using ok unfolding limit_def minScore_def request_def
    by (auto simp: QueryMemory_def GenerateEmbedding_eq QueryMemories_eq Let_def issued_def
        split: if_splits)
  have scores: "map res_Score (Results resp) = filter (\<lambda>s. minScore \<le> s) (map match_Score ?ms)"
    by (simp add: res filter_map comp_def result_score)
  have bound: "\<forall>r\<in>set (Results resp). minScore \<le> res_Score r"
    by (auto simp: res result_score)
  have dist: "distinct (map (\<lambda>r. res_Metadata r ''id'') (Results resp))"
    if "distinct (map match_ID ?ms)"
  proof -
    have "distinct (map match_ID (filter (\<lambda>m. minScore \<le> match_Score m) ?ms))"
      using that by (rule distinct_map_filter)
    then have "distinct (map (\<lambda>m. Some (JStr (match_ID m)))
        (filter (\<lambda>m. minScore \<le> match_Score m) ?ms))"
      by (rule distinct_tagged)
    then show ?thesis
      by (simp add: res comp_def result_id)
  qed
  from tr res scores bound dist show ?thesis by blast
qed

text \<open>
  A query with limit 0 and minimum 0 against the stocked index asks for 10 neighbours and
  keeps the match scored 0.9, dropping the one scored 0.3.
\<close>

theorem query_threshold_and_order_witness:
  "issued stocked (snd (QueryMemory (pet_query 0 0) stocked)) =
     [Embedding ''pet'',
      Query \<lparr>Vector = [1, 0], TopK = 10, IncludeMetadata = True, IncludeVectors = False,
             Filter = user_filter ''alice''\<rparr>]
   \<and> map res_Score (Results (projr (fst (QueryMemory (pet_query 0 0) stocked)))) = [0.9]"
proof -
  let ?q = "QueryMemory (pet_query 0 0) stocked"
  have ok: "?q = (Inr (projr (fst ?q)), snd ?q)"
    by (simp add: query_eval)
  from query_threshold_and_order [OF ok] show ?thesis
    by (simp add: query_eval)
qed

section \<open>Save: what a successful save leaves behind\<close>

text \<open>
  Claim C3. Take a save that returns no error, in a store where a record read under the
  request's session key carries that session's id (true of every store the service itself
  has written, by \<open>readable_under_own_id\<close>). Afterwards the vector index holds, under the
  id of the new message, the embedding of the content together with metadata naming the
  request's session id, the role, the owner, the content and a time to live of 2592000
  seconds (30 days), and the upsert carrying that entry is among the calls issued. The
  session store holds under the key of the request's session, with its time to live set
  to 86400 seconds (24 hours), the record \<open>saved\<close>: the record read with the new
  message appended, or a fresh record when none could be read. That record belongs to the
  session the metadata names, and its last message is the new one, bearing the id of the
  vector entry.
\<close>

theorem save_success_contents:
  fixes now :: time and messageID :: string and req :: SaveMemoryRequest and w w' :: world
  defines "saved \<equiv>
      (case fst (RedisClient_GetSession (req_SessionID req) w) of
         Inr sd \<Rightarrow> sd\<lparr>Messages := Messages sd @ [new_message now messageID req],
                       LastActivity := now\<rparr>
       | Inl _ \<Rightarrow> \<lparr>UserID = req_UserID req, SessionID = req_SessionID req,
                   Messages = [new_message now messageID req], Context = Map.empty,
                   LastActivity = now, CreatedAt = now\<rparr>)"
  assumes run: "SaveMemory now messageID req w = (None, w')"
    and keyed: "\<forall>sd. fst (RedisClient_GetSession (req_SessionID req) w) = Inr sd \<longrightarrow>
                  SessionID sd = req_SessionID req"
  shows "(\<exists>md. vdb w' messageID = Some (embedder w (req_Content req), md)
             \<and> md ''session_id'' = Some (JStr (req_SessionID req))
             \<and> md ''role'' = Some (JStr (req_Role req))
             \<and> md ''ttl'' = Some (JNum 2592000)
             \<and> md ''user_id'' = Some (JStr (req_UserID req))
             \<and> md ''content'' = Some (JStr (req_Content req)))
       \<and> kv w' (''session:'' @ req_SessionID req) = Some (Encoded saved, Some 86400)
       \<and> SessionID saved = req_SessionID req
       \<and> Messages saved \<noteq> []
       \<and> last (Messages saved) = new_message now messageID req
       \<and> msg_ID (last (Messages saved)) = messageID
       \<and> Upsert (upsert_request (new_entry now messageID req (embedder w (req_Content req))))
            \<in> set (issued w w')"
proof -
  obtain session w1 where u: "updated_session now messageID req w = (session, w1)"
    by fastforce
  obtain r2 w2 where s: "RedisClient_SaveSession session w1 = (r2, w2)"
    by fastforce
  have r2: "r2 = None"
    using run u s by (cases r2) (auto simp: SaveMemory_def)
  have session: "session = saved"
    unfolding saved_def by (rule updated_session_shape [OF u])
  have own: "SessionID saved = req_SessionID req"
  proof (cases "fst (RedisClient_GetSession (req_SessionID req) w)")
    case (Inl e)
    then show ?thesis by (simp add: saved_def)
  next
    case (Inr sd)
    with keyed have "SessionID sd = req_SessionID req" by blast
    with Inr show ?thesis by (simp add: saved_def)
  qed
  have msgs: "Messages saved \<noteq> [] \<and> last (Messages saved) = new_message now messageID req"
    by (cases "fst (RedisClient_GetSession (req_SessionID req) w)") (simp_all add: saved_def)
  have "kv w' (''session:'' @ SessionID session) = Some (Encoded session, Some 86400)"
    using SaveMemory_session_kept [OF u run] by simp
  then have stored: "kv w' (''session:'' @ req_SessionID req) = Some (Encoded saved, Some 86400)"
    using session own by simp
  have w1: "w1 = w\<lparr>trace := trace w @ [Redis (GET (''session:'' @ req_SessionID req))]\<rparr>"
    using u by (rule updated_session_eq)
  have fr: "vdb w2 = vdb w1 \<and> down w2 = down w1 \<and> embedder w2 = embedder w1
     \<and> (\<exists>cs. trace w2 = trace w1 @ cs \<and> (\<forall>c\<in>set cs. \<exists>cmd. c = Redis cmd))"
    using SaveSession_frame [OF s] by simp
  have vec: "vdb w' messageID = Some (embedder w (req_Content req),
        up_Metadata (upsert_request (new_entry now messageID req (embedder w (req_Content req)))))
      \<and> Upsert (upsert_request (new_entry now messageID req (embedder w (req_Content req))))
            \<in> set (issued w w')"
    using run u s r2 fr w1
    by (auto simp: SaveMemory_def GenerateEmbedding_eq UpsertMemory_eq issued_def new_entry_def
        split: if_splits)
  have md: "up_Metadata (upsert_request (new_entry now messageID req v)) ''session_id''
        = Some (JStr (req_SessionID req))"
      "up_Metadata (upsert_request (new_entry now messageID req v)) ''role''
        = Some (JStr (req_Role req))"
      "up_Metadata (upsert_request (new_entry now messageID req v)) ''ttl''
        = Some (JNum 2592000)"
      "up_Metadata (upsert_request (new_entry now messageID req v)) ''user_id''
        = Some (JStr (req_UserID req))"
      "up_Metadata (upsert_request (new_entry now messageID req v)) ''content''
        = Some (JStr (req_Content req))" for v
    by (simp_all add: upsert_request_def new_entry_def map_add_def)
  have mid: "msg_ID (last (Messages saved)) = messageID"
    using msgs by (simp add: new_message_def)
  from vec md have vector: "\<exists>md. vdb w' messageID = Some (embedder w (req_Content req), md)
             \<and> md ''session_id'' = Some (JStr (req_SessionID req))
             \<and> md ''role'' = Some (JStr (req_Role req))
             \<and> md ''ttl'' = Some (JNum 2592000)
             \<and> md ''user_id'' = Some (JStr (req_UserID req))
             \<and> md ''content'' = Some (JStr (req_Content req))"
    by blast
  from vector stored own msgs mid vec show ?thesis
    by blast
qed

text \<open>
  Saving into the empty world creates the session \<open>s1\<close> and the entry \<open>m1\<close>. Saving
  into a world where \<open>s1\<close> already has a record with 100 seconds to live appends to
  that record under the same key and sets its time to live to 86400.
\<close>

theorem save_success_contents_witness:
  "fst (SaveMemory 100 ''m1'' cat_req quiet) = None
   \<and> (\<exists>md. vdb (snd (SaveMemory 100 ''m1'' cat_req quiet)) ''m1'' = Some ([1, 0], md)
          \<and> md ''session_id'' = Some (JStr ''s1'') \<and> md ''role'' = Some (JStr ''user'')
          \<and> md ''ttl'' = Some (JNum 2592000))
   \<and> kv (snd (SaveMemory 100 ''m1'' cat_req quiet)) ''session:s1''
       = Some (Encoded \<lparr>UserID = ''alice'', SessionID = ''s1'',
            Messages = [new_message 100 ''m1'' cat_req],
            Context = Map.empty, LastActivity = 100, CreatedAt = 100\<rparr>, Some 86400)
   \<and> fst (SaveMemory 200 ''m3'' cat_req chatting) = None
   \<and> kv chatting ''session:s1'' = Some (Encoded chat_record, Some 100)
   \<and> kv (snd (SaveMemory 200 ''m3'' cat_req chatting)) ''session:s1''
       = Some (Encoded (chat_record\<lparr>Messages := [new_message 200 ''m3'' cat_req],
                                     LastActivity := 200\<rparr>), Some 86400)
   \<and> (\<exists>md. vdb (snd (SaveMemory 200 ''m3'' cat_req chatting)) ''m3'' = Some ([1, 0], md)
          \<and> md ''session_id'' = Some (JStr ''s1''))"
proof -
  let ?r = "SaveMemory 100 ''m1'' cat_req quiet"
  have ok: "fst ?r = None"
    by (simp add: save_eval)
  then have run: "?r = (None, snd ?r)"
    by (metis prod.collapse)
  have rd: "fst (RedisClient_GetSession (req_SessionID cat_req) quiet)
      = Inl (Msg ''session not found'')"
    by (simp add: GetSession_eq quiet_def cat_req_def)
  then have keyed: "\<forall>sd. fst (RedisClient_GetSession (req_SessionID cat_req) quiet) = Inr sd
      \<longrightarrow> SessionID sd = req_SessionID cat_req"
    by simp
  have e: "embedder quiet (req_Content cat_req) = [1, 0]" "req_SessionID cat_req = ''s1''"
      "req_Role cat_req = ''user''" "req_UserID cat_req = ''alice''"
    by (simp_all add: quiet_def cat_req_def)
  from save_success_contents [OF run keyed] ok e rd
  have first: "fst ?r = None
     \<and> (\<exists>md. vdb (snd ?r) ''m1'' = Some ([1, 0], md)
          \<and> md ''session_id'' = Some (JStr ''s1'') \<and> md ''role'' = Some (JStr ''user'')
          \<and> md ''ttl'' = Some (JNum 2592000))
     \<and> kv (snd ?r) ''session:s1''
       = Some (Encoded \<lparr>UserID = ''alice'', SessionID = ''s1'',
            Messages = [new_message 100 ''m1'' cat_req],
            Context = Map.empty, LastActivity = 100, CreatedAt = 100\<rparr>, Some 86400)"
    by auto
  let ?c = "SaveMemory 200 ''m3'' cat_req chatting"
  have okc: "fst ?c = None"
    by (simp add: save_eval chatting_def chat_record_def stocked_def)
  then have runc: "?c = (None, snd ?c)"
    by (metis prod.collapse)
  have had: "kv chatting ''session:s1'' = Some (Encoded chat_record, Some 100)"
    by (simp add: chatting_def)
  have rdc: "fst (RedisClient_GetSession (req_SessionID cat_req) chatting) = Inr chat_record"
    by (simp add: GetSession_eq chatting_def stocked_def cat_req_def)
  have own: "SessionID chat_record = req_SessionID cat_req" "Messages chat_record = []"
    by (simp_all add: chat_record_def cat_req_def)
  from rdc own have keyedc:
    "\<forall>sd. fst (RedisClient_GetSession (req_SessionID cat_req) chatting) = Inr sd
      \<longrightarrow> SessionID sd = req_SessionID cat_req"
    by simp
  have ec: "embedder chatting (req_Content cat_req) = [1, 0]"
    by (simp add: chatting_def stocked_def)
  from save_success_contents [OF runc keyedc] okc e ec rdc own
  have second: "fst ?c = None
     \<and> kv (snd ?c) ''session:s1''
       = Some (Encoded (chat_record\<lparr>Messages := [new_message 200 ''m3'' cat_req],
                                     LastActivity := 200\<rparr>), Some 86400)
     \<and> (\<exists>md. vdb (snd ?c) ''m3'' = Some ([1, 0], md)
          \<and> md ''session_id'' = Some (JStr ''s1''))"
    by auto
  from first had second show ?thesis
    by blast
qed

section \<open>Save: the transcript grows at its end\<close>



section \<open>Cleanup: the expiration sweep\<close>











section \<open>Deleting a memory that is not there\<close>

lemma DeleteMemory_success_removes:
  assumes "MemoryService_DeleteMemory memoryID userID w0 = (None, w)"
  shows "memoryID \<notin> dom (vdb w)"
  using assms
  by (auto simp: MemoryService_DeleteMemory_def QueryMemory_def GenerateEmbedding_eq
      QueryMemories_eq DeleteMemory_eq Let_def split: if_splits)

text \<open>
  Claim C6. Suppose the index answers the ownership query only with ids it holds, and the
  memory id is not in the index: it never was, or this world is the one a successful
  delete of that id has left. Then the service's delete issues no delete call and leaves
  the index as it was, and its answer is the not-found error (the answer for an absent
  memory) or, when the ownership query itself could not be made, that failure wrapped;
  with both calls of the query served it is the not-found error. So a second delete
  changes nothing the first has not. The client's delete call on the absent id leaves the
  index as it was and succeeds whenever it is served.
\<close>

theorem delete_absent_memory:
  fixes memoryID userID :: string and w :: world
  defines "request \<equiv> \<lparr>Vector = embedder w ''verify memory ownership'', TopK = 100,
                        IncludeMetadata = True, IncludeVectors = False,
                        Filter = user_filter userID\<rparr>"
  assumes faithful: "\<forall>m\<in>set (ranker w (vdb w) request). match_ID m \<in> dom (vdb w)"
    and absent: "memoryID \<notin> dom (vdb w)
               \<or> (\<exists>w0. MemoryService_DeleteMemory memoryID userID w0 = (None, w))"
    and run: "MemoryService_DeleteMemory memoryID userID w = (r, w')"
  shows "vdb w' = vdb w
       \<and> (\<forall>i. Delete i \<notin> set (issued w w'))
       \<and> (r = Some (Msg ''memory not found or does not belong to the specified user'')
          \<or> (\<exists>e. r = Some (Wrap ''failed to verify memory ownership'' e)))
       \<and> (\<not> down w (length (trace w)) (Embedding ''verify memory ownership'')
          \<and> \<not> down w (Suc (length (trace w))) (Query request) \<longrightarrow>
            r = Some (Msg ''memory not found or does not belong to the specified user''))
       \<and> vdb (snd (VectorClient_DeleteMemory memoryID w)) = vdb w
       \<and> (fst (VectorClient_DeleteMemory memoryID w) = None
            \<longleftrightarrow> \<not> down w (length (trace w)) (Delete memoryID))"
proof -
  have gone: "memoryID \<notin> dom (vdb w)"
    using absent DeleteMemory_success_removes by blast
  have nf: "\<not> list_ex (\<lambda>result. res_Metadata result ''id'' = Some (JStr memoryID))
        (map result_of_match (filter P (ranker w (vdb w) request)))" for P
    using faithful gone by (auto simp: list_ex_iff result_id)
  have service: "vdb w' = vdb w
       \<and> (\<forall>i. Delete i \<notin> set (issued w w'))
       \<and> (r = Some (Msg ''memory not found or does not belong to the specified user'')
          \<or> (\<exists>e. r = Some (Wrap ''failed to verify memory ownership'' e)))
       \<and> (\<not> down w (length (trace w)) (Embedding ''verify memory ownership'')
          \<and> \<not> down w (Suc (length (trace w))) (Query request) \<longrightarrow>
            r = Some (Msg ''memory not found or does not belong to the specified user''))"
    using run nf unfolding request_def
    by (auto simp: MemoryService_DeleteMemory_def QueryMemory_def GenerateEmbedding_eq
      QueryMemories_eq DeleteMemory_eq Let_def issued_def split: if_splits)
  have "(vdb w)(memoryID := None) = vdb w"
    using gone by (auto simp: fun_upd_idem_iff)
  then have client: "vdb (snd (VectorClient_DeleteMemory memoryID w)) = vdb w
       \<and> (fst (VectorClient_DeleteMemory memoryID w) = None
            \<longleftrightarrow> \<not> down w (length (trace w)) (Delete memoryID))"
    by (simp add: DeleteMemory_eq)
  from service client show ?thesis by blast
qed

text \<open>
  Deleting \<open>m1\<close> from the stocked index succeeds; deleting it again answers
  not-found and leaves the index as the first delete left it.
\<close>

theorem delete_absent_memory_witness:
  "fst (MemoryService_DeleteMemory ''m1'' ''alice'' stocked) = None
   \<and> fst (MemoryService_DeleteMemory ''m1'' ''alice''
            (snd (MemoryService_DeleteMemory ''m1'' ''alice'' stocked)))
       = Some (Msg ''memory not found or does not belong to the specified user'')
   \<and> vdb (snd (MemoryService_DeleteMemory ''m1'' ''alice''
            (snd (MemoryService_DeleteMemory ''m1'' ''alice'' stocked))))
       = vdb (snd (MemoryService_DeleteMemory ''m1'' ''alice'' stocked))"
proof -
  let ?d1 = "MemoryService_DeleteMemory ''m1'' ''alice'' stocked"
  let ?w1 = "snd ?d1"
  let ?d2 = "MemoryService_DeleteMemory ''m1'' ''alice'' ?w1"
  let ?rq = "\<lparr>Vector = embedder ?w1 ''verify memory ownership'', TopK = 100,
              IncludeMetadata = True, IncludeVectors = False, Filter = user_filter ''alice''\<rparr>"
  have ok: "fst ?d1 = None"
    by (simp add: delete_eval)
  then have first: "?d1 = (None, ?w1)"
    by (metis prod.collapse)
  have faithful: "\<forall>m\<in>set (ranker ?w1 (vdb ?w1) ?rq). match_ID m \<in> dom (vdb ?w1)"
    by (simp add: delete_eval)
  have absent: "''m1'' \<notin> dom (vdb ?w1)
      \<or> (\<exists>w0. MemoryService_DeleteMemory ''m1'' ''alice'' w0 = (None, ?w1))"
    using first by blast
  have run: "?d2 = (fst ?d2, snd ?d2)"
    by simp
  have up: "\<not> down ?w1 (length (trace ?w1)) (Embedding ''verify memory ownership'')"
      "\<not> down ?w1 (Suc (length (trace ?w1))) (Query ?rq)"
    by (simp_all add: delete_eval)
  from delete_absent_memory [OF faithful absent run] up ok show ?thesis
    by blast
qed

section \<open>Session context\<close>

text \<open>
  Claim C7. For a session whose record is stored under its id: when \<^verbatim>\<open>SetSessionContext\<close>
  with the map \<open>u\<close> returns no error, the record stored afterwards is the old one with
  context \<open>Context sd ++ u\<close> and a time to live of 86400 seconds, and a
  \<^verbatim>\<open>GetSession\<close> whose read is served returns that record: every key of \<open>u\<close> has
  \<open>u\<close>'s value and every other key has the value it had. When there is no record under
  the session's key, \<^verbatim>\<open>SetSessionContext\<close> returns an error and the session store is
  unchanged.
\<close>

theorem set_context_round_trip:
  "(\<forall>sd t w1 r2 w2.
        kv w (''session:'' @ s) = Some (Encoded sd, t) \<and> SessionID sd = s
      \<and> MemoryService_SetSessionContext now s u w = (None, w1)
      \<and> MemoryService_GetSession now' s w1 = (r2, w2)
      \<and> \<not> down w (length (trace w1)) (Redis (GET (''session:'' @ s))) \<longrightarrow>
        kv w1 (''session:'' @ s) =
          Some (Encoded (sd\<lparr>Context := Context sd ++ u, LastActivity := now\<rparr>), Some 86400)
      \<and> r2 = Inr (sd\<lparr>Context := Context sd ++ u, LastActivity := now\<rparr>)
      \<and> (\<forall>k v. u k = Some v \<longrightarrow> Context (projr r2) k = Some v)
      \<and> (\<forall>k. u k = None \<longrightarrow> Context (projr r2) k = Context sd k))
   \<and> (\<forall>r w1. kv w (''session:'' @ s) = None
      \<and> MemoryService_SetSessionContext now s u w = (r, w1) \<longrightarrow>
        (r = Some (Msg ''session not found'')
          \<or> r = Some (Wrap ''failed to get session'' RequestFailed))
      \<and> kv w1 = kv w)"
proof (rule conjI)
  show "\<forall>r w1. kv w (''session:'' @ s) = None
      \<and> MemoryService_SetSessionContext now s u w = (r, w1) \<longrightarrow>
        (r = Some (Msg ''session not found'')
          \<or> r = Some (Wrap ''failed to get session'' RequestFailed))
      \<and> kv w1 = kv w"
    by (auto simp: MemoryService_SetSessionContext_def RedisClient_SetSessionContext_def
        GetSession_eq split: if_splits)
next
  show "\<forall>sd t w1 r2 w2.
        kv w (''session:'' @ s) = Some (Encoded sd, t) \<and> SessionID sd = s
      \<and> MemoryService_SetSessionContext now s u w = (None, w1)
      \<and> MemoryService_GetSession now' s w1 = (r2, w2)
      \<and> \<not> down w (length (trace w1)) (Redis (GET (''session:'' @ s))) \<longrightarrow>
        kv w1 (''session:'' @ s) =
          Some (Encoded (sd\<lparr>Context := Context sd ++ u, LastActivity := now\<rparr>), Some 86400)
      \<and> r2 = Inr (sd\<lparr>Context := Context sd ++ u, LastActivity := now\<rparr>)
      \<and> (\<forall>k v. u k = Some v \<longrightarrow> Context (projr r2) k = Some v)
      \<and> (\<forall>k. u k = None \<longrightarrow> Context (projr r2) k = Context sd k)"
  proof (intro allI impI)
    fix sd :: SessionData and t w1 r2 w2
    let ?sd' = "sd\<lparr>Context := Context sd ++ u, LastActivity := now\<rparr>"
    assume a: "kv w (''session:'' @ s) = Some (Encoded sd, t) \<and> SessionID sd = s
        \<and> MemoryService_SetSessionContext now s u w = (None, w1)
        \<and> MemoryService_GetSession now' s w1 = (r2, w2)
        \<and> \<not> down w (length (trace w1)) (Redis (GET (''session:'' @ s)))"
    then have save: "RedisClient_SaveSession ?sd'
          (w\<lparr>trace := trace w @ [Redis (GET (''session:'' @ s))]\<rparr>) = (None, w1)"
      by (auto simp: MemoryService_SetSessionContext_def RedisClient_SetSessionContext_def
          GetSession_eq split: if_splits)
    have kv1: "kv w1 (''session:'' @ s) = Some (Encoded ?sd', Some 86400)"
      using SaveSession_ok_kv [OF save] a by simp
    have dn: "down w1 = down w"
      using SaveSession_frame [OF save] by simp
    have r2: "r2 = Inr ?sd'"
      using a kv1 dn by (auto simp: MemoryService_GetSession_def GetSession_eq)
    show "kv w1 (''session:'' @ s) = Some (Encoded ?sd', Some 86400)
        \<and> r2 = Inr ?sd'
        \<and> (\<forall>k v. u k = Some v \<longrightarrow> Context (projr r2) k = Some v)
        \<and> (\<forall>k. u k = None \<longrightarrow> Context (projr r2) k = Context sd k)"
      using kv1 r2 by (auto simp: map_add_def split: option.splits)
  qed
qed

text \<open>
  Merging \<open>b, c\<close> into a context holding \<open>a, b\<close>: \<open>a\<close> is kept, \<open>b\<close>
  overwritten, \<open>c\<close> added. Setting the context of a session that has no record fails.
\<close>

theorem set_context_round_trip_witness:
  "fst (MemoryService_SetSessionContext 5 ''s1'' ctx_update chatting) = None
   \<and> (\<exists>sd. fst (MemoryService_GetSession 6 ''s1''
                  (snd (MemoryService_SetSessionContext 5 ''s1'' ctx_update chatting))) = Inr sd
          \<and> Context sd ''a'' = Some (JNum 1)
          \<and> Context sd ''b'' = Some (JNum 3)
          \<and> Context sd ''c'' = Some (JNum 4))
   \<and> kv (snd (MemoryService_SetSessionContext 5 ''s1'' ctx_update chatting)) ''session:s1''
       = Some (Encoded (chat_record\<lparr>Context := Context chat_record ++ ctx_update,
                                     LastActivity := 5\<rparr>), Some 86400)
   \<and> fst (MemoryService_SetSessionContext 5 ''ghost'' ctx_update quiet) \<noteq> None
   \<and> kv (snd (MemoryService_SetSessionContext 5 ''ghost'' ctx_update quiet)) = kv quiet"
proof -
  let ?n = "MemoryService_SetSessionContext 5 ''ghost'' ctx_update quiet"
  have n: "?n = (fst ?n, snd ?n)"
    by simp
  have none: "kv quiet (''session:'' @ ''ghost'') = None"
    by (simp add: quiet_def)
  from set_context_round_trip [of quiet "''ghost''" 5 ctx_update 6] none n
  have missing: "(fst ?n = Some (Msg ''session not found'')
        \<or> fst ?n = Some (Wrap ''failed to get session'' RequestFailed))
      \<and> kv (snd ?n) = kv quiet"
    by blast
  let ?s = "MemoryService_SetSessionContext 5 ''s1'' ctx_update chatting"
  let ?g = "MemoryService_GetSession 6 ''s1'' (snd ?s)"
  have ok: "fst ?s = None"
    by (simp add: session_eval)
  then have set: "?s = (None, snd ?s)"
    by (metis prod.collapse)
  have get: "?g = (fst ?g, snd ?g)"
    by simp
  have stored: "kv chatting (''session:'' @ ''s1'') = Some (Encoded chat_record, Some 100)"
      "SessionID chat_record = ''s1''"
    by (simp_all add: chatting_def chat_record_def)
  have up: "\<not> down chatting (length (trace (snd ?s))) (Redis (GET (''session:'' @ ''s1'')))"
    by (simp add: chatting_def stocked_def)
  have u: "ctx_update ''b'' = Some (JNum 3)" "ctx_update ''c'' = Some (JNum 4)"
      "ctx_update ''a'' = None" "Context chat_record ''a'' = Some (JNum 1)"
    by (simp_all add: ctx_update_def chat_record_def)
  from set_context_round_trip [of chatting "''s1''" 5 ctx_update 6]
  have "kv (snd ?s) (''session:'' @ ''s1'') =
          Some (Encoded (chat_record\<lparr>Context := Context chat_record ++ ctx_update,
                                       LastActivity := 5\<rparr>), Some 86400)
      \<and> fst ?g = Inr (chat_record\<lparr>Context := Context chat_record ++ ctx_update,
                                   LastActivity := 5\<rparr>)
      \<and> (\<forall>k v. ctx_update k = Some v \<longrightarrow> Context (projr (fst ?g)) k = Some v)
      \<and> (\<forall>k. ctx_update k = None \<longrightarrow> Context (projr (fst ?g)) k = Context chat_record k)"
    using stored set get up by blast
  with ok u missing show ?thesis
    by auto
qed

section \<open>Deleting a session\<close>

text \<open>
  Claim C8. Deleting a session with the flag for its memories set talks to the session
  store only: the vector index is as before, every call issued is a command to the
  session store, and no key other than the session's own changes. When the operation
  returns no error it has read the session and deleted its key, and the key is gone.
\<close>

theorem delete_session_leaves_memories:
  assumes run: "MemoryService_DeleteSession sessionID True w = (r, w')"
  shows "vdb w' = vdb w
       \<and> (\<forall>c\<in>set (issued w w'). \<exists>cmd. c = Redis cmd)
       \<and> (\<forall>k. k \<noteq> ''session:'' @ sessionID \<longrightarrow> kv w' k = kv w k)
       \<and> (r = None \<longrightarrow> kv w' (''session:'' @ sessionID) = None)
       \<and> (r = None \<longrightarrow>
            issued w w' = [Redis (GET (''session:'' @ sessionID)),
                           Redis (DEL (''session:'' @ sessionID))])"
  using run
  by (auto simp: MemoryService_DeleteSession_def GetSession_eq DeleteSession_eq issued_def
      split: if_splits option.splits redis_val.splits prod.splits)

text \<open>The session goes, the memories stay.\<close>

theorem delete_session_leaves_memories_witness:
  "fst (MemoryService_DeleteSession ''s1'' True chatting) = None
   \<and> kv (snd (MemoryService_DeleteSession ''s1'' True chatting)) ''session:s1'' = None
   \<and> vdb (snd (MemoryService_DeleteSession ''s1'' True chatting)) = vdb chatting
   \<and> vdb chatting ''m1'' = Some ([1, 0], demo_metadata 100 50)"
proof -
  let ?d = "MemoryService_DeleteSession ''s1'' True chatting"
  have run: "?d = (fst ?d, snd ?d)"
    by simp
  have ok: "fst ?d = None"
    by (simp add: session_eval)
  have v: "vdb chatting ''m1'' = Some ([1, 0], demo_metadata 100 50)"
    by (simp add: chatting_def stocked_def)
  from delete_session_leaves_memories [OF run] ok v show ?thesis
    by simp
qed

section \<open>Query: errors and empty answers\<close>

text \<open>
  Claim C9. A query returns an error exactly when the embedding call fails or the call to
  the vector index fails. Otherwise the total is the number of results, and when every
  match of the index scores below the effective minimum (in particular when there is no
  match) the answer is the empty result list with total 0.
\<close>

theorem query_error_iff:
  fixes req :: QueryMemoryRequest and w :: world
  defines "minScore \<equiv> (if q_MinScore req \<le> 0 then 0.5 else q_MinScore req)"
  defines "request \<equiv> \<lparr>Vector = embedder w (q_Query req),
                        TopK = (if q_Limit req \<le> 0 then 10 else q_Limit req),
                        IncludeMetadata = True, IncludeVectors = False,
                        Filter = user_filter (q_UserID req)\<rparr>"
  assumes run: "QueryMemory req w = (r, w')"
  shows "(isl r \<longleftrightarrow>
            down w (length (trace w)) (Embedding (q_Query req))
          \<or> down w (Suc (length (trace w))) (Query request))
       \<and> (\<not> isl r \<longrightarrow> Total (projr r) = int (length (Results (projr r))))
       \<and> (\<not> isl r \<and> (\<forall>m\<in>set (ranker w (vdb w) request). match_Score m < minScore) \<longrightarrow>
            r = Inr \<lparr>Results = [], Total = 0\<rparr>)"
  using run unfolding minScore_def request_def
  by (auto simp: QueryMemory_def GenerateEmbedding_eq QueryMemories_eq Let_def
      filter_empty_conv not_le split: if_splits)

text \<open>
  With a minimum of 0.95 both matches of the stocked index fall below the threshold; the
  query succeeds with nothing.
\<close>

theorem query_error_iff_witness:
  "fst (QueryMemory (pet_query 5 0.95) stocked) = Inr \<lparr>Results = [], Total = 0\<rparr>"
proof -
  let ?q = "QueryMemory (pet_query 5 0.95) stocked"
  have run: "?q = (fst ?q, snd ?q)" by simp
  have up: "\<not> isl (fst ?q)"
    by (simp add: query_eval)
  from query_error_iff [OF run] up show ?thesis
    by (simp add: query_eval)
qed

section \<open>Deleting a session that cannot be read\<close>

text \<open>
  Claim C10. When the session's record cannot be read (there is none, it does not decode,
  or the read fails), deleting with the flag set returns the read's error wrapped after
  that one read: no delete is issued and both stores are as before. Deleting without the
  flag issues the delete alone and, the delete being served, returns no error whether or
  not the key was there; if it was not, the session store is as before.
\<close>

theorem delete_absent_session:
  "(\<forall>r w'. isl (fst (RedisClient_GetSession sessionID w))
        \<and> MemoryService_DeleteSession sessionID True w = (r, w') \<longrightarrow>
         (\<exists>e. r = Some (Wrap ''failed to get session'' e))
       \<and> kv w' = kv w \<and> vdb w' = vdb w
       \<and> issued w w' = [Redis (GET (''session:'' @ sessionID))])
   \<and> (\<forall>r w'. \<not> down w (length (trace w)) (Redis (DEL (''session:'' @ sessionID)))
        \<and> MemoryService_DeleteSession sessionID False w = (r, w') \<longrightarrow>
         r = None \<and> vdb w' = vdb w
       \<and> kv w' = (kv w)(''session:'' @ sessionID := None)
       \<and> (kv w (''session:'' @ sessionID) = None \<longrightarrow> kv w' = kv w)
       \<and> issued w w' = [Redis (DEL (''session:'' @ sessionID))])"
  by (auto simp: MemoryService_DeleteSession_def GetSession_eq DeleteSession_eq issued_def
      split: if_splits option.splits redis_val.splits prod.splits)

text \<open>In the empty world a session named \<open>ghost\<close> has no record.\<close>

theorem delete_absent_session_witness:
  "(\<exists>e. fst (MemoryService_DeleteSession ''ghost'' True quiet)
          = Some (Wrap ''failed to get session'' e))
   \<and> kv (snd (MemoryService_DeleteSession ''ghost'' True quiet)) = kv quiet
   \<and> issued quiet (snd (MemoryService_DeleteSession ''ghost'' True quiet))
       = [Redis (GET ''session:ghost'')]
   \<and> fst (MemoryService_DeleteSession ''ghost'' False quiet) = None
   \<and> kv (snd (MemoryService_DeleteSession ''ghost'' False quiet)) = kv quiet"
proof -
  let ?t = "MemoryService_DeleteSession ''ghost'' True quiet"
  let ?f = "MemoryService_DeleteSession ''ghost'' False quiet"
  have t: "?t = (fst ?t, snd ?t)" and f: "?f = (fst ?f, snd ?f)"
    by simp_all
  have unreadable: "isl (fst (RedisClient_GetSession ''ghost'' quiet))"
    by (simp add: GetSession_eq quiet_def)
  have up: "\<not> down quiet (length (trace quiet)) (Redis (DEL (''session:'' @ ''ghost'')))"
    and none: "kv quiet (''session:'' @ ''ghost'') = None"
    by (simp_all add: quiet_def)
  note c = delete_absent_session [of "''ghost''" quiet]
  from c unreadable t have a: "(\<exists>e. fst ?t = Some (Wrap ''failed to get session'' e))
       \<and> kv (snd ?t) = kv quiet \<and> vdb (snd ?t) = vdb quiet
       \<and> issued quiet (snd ?t) = [Redis (GET (''session:'' @ ''ghost''))]"
    by blast
  from c up f none have b: "fst ?f = None \<and> kv (snd ?f) = kv quiet"
    by blast
  from a b show ?thesis by simp
qed

end
